theory Spec2Isabelle
  imports Complex_Main "HOL-Library.Word"
begin

section \<open>Go values as the package sees them\<close>

text \<open>
  The package \<open>nullable\<close> is generic in the payload type \<open>T\<close> and inspects values at run
  time through \<open>reflect\<close>. The embedding therefore carries types as data: a type parameter
  \<open>T\<close> is a \<open>gotype\<close>, the content of a variable of that type is a \<open>rep\<close>, and an interface
  value (\<open>any\<close>, \<open>driver.Value\<close>) is either nil or a dynamic type with its content.
  Pointers are modelled by their pointee (nil or a content), so pointer chains are finite;
  recursive type declarations are outside the fragment.
\<close>

datatype kind =
    KInvalid | KBool | KInt | KInt8 | KInt16 | KInt32 | KInt64
  | KUint | KUint8 | KUint16 | KUint32 | KUint64 | KUintptr
  | KFloat32 | KFloat64 | KComplex64 | KComplex128
  | KArray | KChan | KFunc | KInterface | KMap | KPointer | KSlice | KString | KStruct
  | KUnsafePointer

datatype gotype =
    TBool | TInt | TInt8 | TInt16 | TInt32 | TInt64
  | TUint | TUint8 | TUint16 | TUint32 | TUint64 | TUintptr
  | TFloat32 | TFloat64 | TComplex64 | TComplex128 | TString | TUnsafePointer
  | TNamed string gotype
  | TPointer gotype
  | TSlice gotype
  | TArray nat gotype
  | TMap gotype gotype
  | TChan gotype
  | TFunc "gotype list" "gotype list"
  | TStruct "(string \<times> gotype) list"
  | TInterface "string list"

text \<open>
  Integers of every width are kept as the 64-bit value that \<open>reflect.Value.Int\<close> and
  \<open>reflect.Value.Uint\<close> return for them (sign- or zero-extended). Floating-point contents
  are kept as the number they denote; no operation of the package computes with them.
  Maps, channels, functions and unsafe pointers are nil or an opaque reference.
\<close>

datatype rep =
    RBool bool
  | RInt "64 word"
  | RUint "64 word"
  | RFloat real
  | RComplex complex
  | RString string
  | RPointer "rep option"
  | RSlice "rep list option"
  | RArray "rep list"
  | RStruct "rep list"
  | RIface "(gotype \<times> rep) option"
  | RRef "nat option"

type_synonym any = "(gotype \<times> rep) option"

fun kind_of :: "gotype \<Rightarrow> kind" where
  "kind_of TBool = KBool"
| "kind_of TInt = KInt"
| "kind_of TInt8 = KInt8"
| "kind_of TInt16 = KInt16"
| "kind_of TInt32 = KInt32"
| "kind_of TInt64 = KInt64"
| "kind_of TUint = KUint"
| "kind_of TUint8 = KUint8"
| "kind_of TUint16 = KUint16"
| "kind_of TUint32 = KUint32"
| "kind_of TUint64 = KUint64"
| "kind_of TUintptr = KUintptr"
| "kind_of TFloat32 = KFloat32"
| "kind_of TFloat64 = KFloat64"
| "kind_of TComplex64 = KComplex64"
| "kind_of TComplex128 = KComplex128"
| "kind_of TString = KString"
| "kind_of TUnsafePointer = KUnsafePointer"
| "kind_of (TNamed name u) = kind_of u"
| "kind_of (TPointer e) = KPointer"
| "kind_of (TSlice e) = KSlice"
| "kind_of (TArray len e) = KArray"
| "kind_of (TMap k e) = KMap"
| "kind_of (TChan e) = KChan"
| "kind_of (TFunc ins outs) = KFunc"
| "kind_of (TStruct fs) = KStruct"
| "kind_of (TInterface ms) = KInterface"

fun underlying :: "gotype \<Rightarrow> gotype" where
  "underlying (TNamed name u) = underlying u"
| "underlying t = t"

definition is_interface :: "gotype \<Rightarrow> bool" where
  "is_interface t = (kind_of t = KInterface)"

text \<open>\<open>var zero T\<close>: the zero value of every type.\<close>

fun zero_rep :: "gotype \<Rightarrow> rep" where
  "zero_rep TBool = RBool False"
| "zero_rep TInt = RInt 0"
| "zero_rep TInt8 = RInt 0"
| "zero_rep TInt16 = RInt 0"
| "zero_rep TInt32 = RInt 0"
| "zero_rep TInt64 = RInt 0"
| "zero_rep TUint = RUint 0"
| "zero_rep TUint8 = RUint 0"
| "zero_rep TUint16 = RUint 0"
| "zero_rep TUint32 = RUint 0"
| "zero_rep TUint64 = RUint 0"
| "zero_rep TUintptr = RUint 0"
| "zero_rep TFloat32 = RFloat 0"
| "zero_rep TFloat64 = RFloat 0"
| "zero_rep TComplex64 = RComplex 0"
| "zero_rep TComplex128 = RComplex 0"
| "zero_rep TString = RString []"
| "zero_rep TUnsafePointer = RRef None"
| "zero_rep (TNamed name u) = zero_rep u"
| "zero_rep (TPointer e) = RPointer None"
| "zero_rep (TSlice e) = RSlice None"
| "zero_rep (TArray len e) = RArray (replicate len (zero_rep e))"
| "zero_rep (TMap k e) = RRef None"
| "zero_rep (TChan e) = RRef None"
| "zero_rep (TFunc ins outs) = RRef None"
| "zero_rep (TStruct fs) = RStruct (map (\<lambda>f. zero_rep (snd f)) fs)"
| "zero_rep (TInterface ms) = RIface None"

text \<open>
  \<open>any(x)\<close> for \<open>x\<close> of static type \<open>t\<close>: a content of a concrete type is boxed with that
  type; a content of an interface type already is nil or a dynamic type with a content.
\<close>

definition box :: "gotype \<Rightarrow> rep \<Rightarrow> any" where
  "box t r =
     (if is_interface t then (case r of RIface d \<Rightarrow> d | _ \<Rightarrow> None) else Some (t, r))"

subsection \<open>Well-typed contents\<close>

text \<open>
  \<open>intSize\<close> is the width of \<open>int\<close>, \<open>uint\<close> and \<open>uintptr\<close> on the platform (32 or 64).
\<close>

fun int_bits :: "nat \<Rightarrow> kind \<Rightarrow> nat" where
  "int_bits intSize KInt = intSize"
| "int_bits intSize KInt8 = 8"
| "int_bits intSize KInt16 = 16"
| "int_bits intSize KInt32 = 32"
| "int_bits intSize KInt64 = 64"
| "int_bits intSize KUint = intSize"
| "int_bits intSize KUint8 = 8"
| "int_bits intSize KUint16 = 16"
| "int_bits intSize KUint32 = 32"
| "int_bits intSize KUint64 = 64"
| "int_bits intSize KUintptr = intSize"
| "int_bits intSize k = 0"

definition signed_kinds :: "kind list" where
  "signed_kinds = [KInt, KInt8, KInt16, KInt32, KInt64]"

definition unsigned_kinds :: "kind list" where
  "unsigned_kinds = [KUint, KUint8, KUint16, KUint32, KUint64, KUintptr]"

fun has_type :: "nat \<Rightarrow> gotype \<Rightarrow> rep \<Rightarrow> bool" where
  "has_type intSize (TNamed name u) r = has_type intSize u r"
| "has_type intSize (TPointer e) r =
     (case r of RPointer None \<Rightarrow> True | RPointer (Some p) \<Rightarrow> has_type intSize e p | _ \<Rightarrow> False)"
| "has_type intSize (TSlice e) r =
     (case r of RSlice None \<Rightarrow> True | RSlice (Some xs) \<Rightarrow> list_all (has_type intSize e) xs
      | _ \<Rightarrow> False)"
| "has_type intSize (TArray len e) r =
     (case r of RArray xs \<Rightarrow> length xs = len \<and> list_all (has_type intSize e) xs | _ \<Rightarrow> False)"
| "has_type intSize (TStruct fs) r =
     (case r of RStruct xs \<Rightarrow> list_all2 (\<lambda>f x. has_type intSize (snd f) x) fs xs | _ \<Rightarrow> False)"
| "has_type intSize (TInterface ms) r =
     (case r of RIface None \<Rightarrow> True
      | RIface (Some (t, x)) \<Rightarrow> \<not> is_interface t \<and> has_type intSize t x
      | _ \<Rightarrow> False)"
| "has_type intSize (TMap k e) r = (case r of RRef x \<Rightarrow> True | _ \<Rightarrow> False)"
| "has_type intSize (TChan e) r = (case r of RRef x \<Rightarrow> True | _ \<Rightarrow> False)"
| "has_type intSize (TFunc ins outs) r = (case r of RRef x \<Rightarrow> True | _ \<Rightarrow> False)"
| "has_type intSize TUnsafePointer r = (case r of RRef x \<Rightarrow> True | _ \<Rightarrow> False)"
| "has_type intSize TBool r = (case r of RBool b \<Rightarrow> True | _ \<Rightarrow> False)"
| "has_type intSize TString r = (case r of RString s \<Rightarrow> True | _ \<Rightarrow> False)"
| "has_type intSize TFloat32 r = (case r of RFloat f \<Rightarrow> True | _ \<Rightarrow> False)"
| "has_type intSize TFloat64 r = (case r of RFloat f \<Rightarrow> True | _ \<Rightarrow> False)"
| "has_type intSize TComplex64 r = (case r of RComplex c \<Rightarrow> True | _ \<Rightarrow> False)"
| "has_type intSize TComplex128 r = (case r of RComplex c \<Rightarrow> True | _ \<Rightarrow> False)"
| "has_type intSize t r =
     (case r of
        RInt i \<Rightarrow> kind_of t \<in> set signed_kinds
          \<and> - (2 ^ (int_bits intSize (kind_of t) - 1)) \<le> sint i
          \<and> sint i < 2 ^ (int_bits intSize (kind_of t) - 1)
      | RUint u \<Rightarrow> kind_of t \<in> set unsigned_kinds \<and> uint u < 2 ^ int_bits intSize (kind_of t)
      | _ \<Rightarrow> False)"

section \<open>Errors, reflection and the surrounding libraries\<close>

text \<open>
  \<open>fmt.Errorf\<close> is kept as its format string with the arguments it is applied to.
  \<open>External\<close> stands for the errors that code outside the package returns: the JSON
  decoder, the YAML callback, and the \<open>Scan\<close> and \<open>Value\<close> methods of a payload type.
\<close>

datatype fmt_arg = Arg_kind kind | Arg_type "gotype option" | Arg_value any

datatype error =
    ErrUnsupportedConversion
  | Errorf string "fmt_arg list"
  | External string

text \<open>
  What the package calls but does not define: whether \<open>*T\<close> implements \<open>sql.Scanner\<close> and
  a dynamic type implements \<open>driver.Valuer\<close> (with the method when it does), and
  \<open>encoding/json\<close>. A \<open>Scan\<close> method and \<open>json.Unmarshal\<close> write through a pointer: they map
  the content of the target before the call to its content after it, with the error.
\<close>

record env =
  Scanner :: "gotype \<Rightarrow> (rep \<Rightarrow> any \<Rightarrow> rep \<times> error option) option"
  Valuer :: "gotype \<Rightarrow> (rep \<Rightarrow> any \<times> error option) option"
  json_Marshal :: "any \<Rightarrow> string \<times> error option"
  json_Unmarshal :: "gotype \<Rightarrow> string \<Rightarrow> rep \<Rightarrow> rep \<times> error option"

text \<open>The type assertion \<open>v.(driver.Valuer)\<close>; a nil interface value implements nothing.\<close>

definition as_Valuer :: "env \<Rightarrow> any \<Rightarrow> (any \<times> error option) option" where
  "as_Valuer env v =
     (case v of None \<Rightarrow> None
      | Some (t, r) \<Rightarrow> (case Valuer env t of None \<Rightarrow> None | Some m \<Rightarrow> Some (m r)))"

text \<open>
  A \<open>reflect.Value\<close> is the zero Value or a type with a content; \<open>reflect.ValueOf\<close> of an
  interface value is that value. The accessors panic on a Value of another kind: the
  result \<open>None\<close>.
\<close>

definition reflect_TypeOf :: "any \<Rightarrow> gotype option" where
  "reflect_TypeOf v = map_option fst v"

definition reflect_Kind :: "any \<Rightarrow> kind" where
  "reflect_Kind rv = (case rv of None \<Rightarrow> KInvalid | Some (t, r) \<Rightarrow> kind_of t)"

definition reflect_IsNil :: "any \<Rightarrow> bool option" where
  "reflect_IsNil rv = (case rv of Some (t, RPointer p) \<Rightarrow> Some (p = None) | _ \<Rightarrow> None)"

text \<open>\<open>rv.Elem().Interface()\<close> on a non-nil pointer: the pointee as an interface value.\<close>

definition reflect_Elem_Interface :: "any \<Rightarrow> any option" where
  "reflect_Elem_Interface rv =
     (case rv of
        Some (t, RPointer (Some p)) \<Rightarrow>
          (case underlying t of TPointer e \<Rightarrow> Some (box e p) | _ \<Rightarrow> None)
      | _ \<Rightarrow> None)"

definition reflect_Int :: "any \<Rightarrow> 64 word option" where
  "reflect_Int rv = (case rv of Some (t, RInt i) \<Rightarrow> Some i | _ \<Rightarrow> None)"

definition reflect_Uint :: "any \<Rightarrow> 64 word option" where
  "reflect_Uint rv = (case rv of Some (t, RUint u) \<Rightarrow> Some u | _ \<Rightarrow> None)"

definition reflect_Float :: "any \<Rightarrow> real option" where
  "reflect_Float rv = (case rv of Some (t, RFloat f) \<Rightarrow> Some f | _ \<Rightarrow> None)"

definition reflect_Bool :: "any \<Rightarrow> bool option" where
  "reflect_Bool rv = (case rv of Some (t, RBool b) \<Rightarrow> Some b | _ \<Rightarrow> None)"

definition reflect_String :: "any \<Rightarrow> string option" where
  "reflect_String rv = (case rv of Some (t, RString s) \<Rightarrow> Some s | _ \<Rightarrow> None)"

text \<open>\<open>rv.Type().Elem()\<close> of a slice.\<close>

definition reflect_Type_Elem :: "any \<Rightarrow> gotype option" where
  "reflect_Type_Elem rv =
     (case rv of
        Some (t, r) \<Rightarrow> (case underlying t of TSlice e \<Rightarrow> Some e | _ \<Rightarrow> None)
      | None \<Rightarrow> None)"

text \<open>\<open>rv.Bytes()\<close>: the same elements, as a \<open>[]byte\<close>.\<close>

definition reflect_Bytes :: "any \<Rightarrow> any option" where
  "reflect_Bytes rv =
     (case rv of Some (t, RSlice xs) \<Rightarrow> Some (Some (TSlice TUint8, RSlice xs)) | _ \<Rightarrow> None)"

text \<open>The struct type \<open>time.Time\<close> of the standard library.\<close>

definition time_zone :: gotype where
  "time_zone = TNamed ''time.zone''
     (TStruct [(''name'', TString), (''offset'', TInt), (''isDST'', TBool)])"

definition time_zoneTrans :: gotype where
  "time_zoneTrans = TNamed ''time.zoneTrans''
     (TStruct [(''when'', TInt64), (''index'', TUint8), (''isstd'', TBool), (''isutc'', TBool)])"

definition time_Location :: gotype where
  "time_Location = TNamed ''time.Location''
     (TStruct [(''name'', TString), (''zone'', TSlice time_zone), (''tx'', TSlice time_zoneTrans),
               (''extend'', TString), (''cacheStart'', TInt64), (''cacheEnd'', TInt64),
               (''cacheZone'', TPointer time_zone)])"

definition time_Time :: gotype where
  "time_Time = TNamed ''time.Time''
     (TStruct [(''wall'', TUint64), (''ext'', TInt64), (''loc'', TPointer time_Location)])"

section \<open>The package\<close>

subsection \<open>The coercion helpers\<close>

text \<open>\<open>zeroValue[T]()\<close>.\<close>

definition zeroValue :: "gotype \<Rightarrow> rep" where
  "zeroValue T = zero_rep T"

text \<open>
  \<open>convertToType[T](value)\<close>. In the branch of equal types the dynamic type of \<open>value\<close> is
  \<open>T\<close>, so the assertion \<open>value.(T)\<close> yields its content.
\<close>

definition convertToType :: "gotype \<Rightarrow> any \<Rightarrow> rep \<times> error option" where
  "convertToType T v =
     (let zero = zero_rep T in
      case v of
        None \<Rightarrow> (zero, None)
      | Some (t, r) \<Rightarrow>
          (let valueType = reflect_TypeOf v;
               targetType = reflect_TypeOf (box T zero)
           in if valueType = targetType then (r, None)
              else (zero, Some ErrUnsupportedConversion)))"

text \<open>
  \<open>convertToDriverValue(v)\<close>: the result is \<open>None\<close> when a reflect accessor panics, and
  otherwise the pair of the driver value and the error.
\<close>

definition any_size :: "any \<Rightarrow> nat" where
  "any_size v = (case v of None \<Rightarrow> 0 | Some (t, r) \<Rightarrow> Suc (size r))"

function convertToDriverValue :: "env \<Rightarrow> any \<Rightarrow> (any \<times> error option) option" where
  "convertToDriverValue env v =
     (case as_Valuer env v of
        Some res \<Rightarrow> Some res
      | None \<Rightarrow>
          (let rv = v; k = reflect_Kind rv in
           if k = KPointer then
             (case reflect_IsNil rv of
                None \<Rightarrow> None
              | Some True \<Rightarrow> Some (None, None)
              | Some False \<Rightarrow>
                  (case reflect_Elem_Interface rv of
                     None \<Rightarrow> None
                   | Some p \<Rightarrow> convertToDriverValue env p))
           else if k \<in> set [KInt, KInt8, KInt16, KInt32, KInt64] then
             map_option (\<lambda>i. (Some (TInt64, RInt i), None)) (reflect_Int rv)
           else if k \<in> set [KUint, KUint8, KUint16, KUint32] then
             map_option (\<lambda>u. (Some (TInt64, RInt u), None)) (reflect_Uint rv)
           else if k = KUint64 then
             (case reflect_Uint rv of
                None \<Rightarrow> None
              | Some u64 \<Rightarrow>
                  if push_bit 63 1 \<le> u64 then
                    Some (None, Some (Errorf ''uint64 values with high bit set are not supported'' []))
                  else Some (Some (TInt64, RInt u64), None))
           else if k \<in> set [KFloat32, KFloat64] then
             map_option (\<lambda>f. (Some (TFloat64, RFloat f), None)) (reflect_Float rv)
           else if k = KBool then
             map_option (\<lambda>b. (Some (TBool, RBool b), None)) (reflect_Bool rv)
           else if k = KSlice then
             (case reflect_Type_Elem rv of
                None \<Rightarrow> None
              | Some e \<Rightarrow>
                  if kind_of e = KUint8 then map_option (\<lambda>bs. (bs, None)) (reflect_Bytes rv)
                  else Some (None, Some (Errorf ''unsupported slice type: %s'' [Arg_kind (kind_of e)])))
           else if k = KString then
             map_option (\<lambda>s. (Some (TString, RString s), None)) (reflect_String rv)
           else if k = KStruct then
             (if reflect_TypeOf v = Some time_Time then Some (v, None)
              else Some (None, Some (Errorf ''unsupported struct type: %s''
                                      [Arg_type (reflect_TypeOf rv)])))
           else Some (None, Some (Errorf ''unsupported type: %T'' [Arg_value v]))))"
  by pat_completeness auto
termination
  by (relation "measure (\<lambda>(env, v). any_size v)")
     (auto simp: reflect_Elem_Interface_def any_size_def box_def
           split: option.splits rep.splits gotype.splits if_splits prod.splits)

declare convertToDriverValue.simps [simp del]

subsection \<open>The type and its constructors\<close>

record nullable =
  "value" :: rep
  valid :: bool

text \<open>
  A composite literal \<open>Nullable[T]{...}\<close>: a field that the literal leaves out gets the
  zero value of its type. \<open>Nullable_zero\<close> is \<open>var n Nullable[T]\<close>, the literal with no
  field.
\<close>

definition Nullable_lit :: "gotype \<Rightarrow> rep option \<Rightarrow> bool option \<Rightarrow> nullable" where
  "Nullable_lit T v b =
     \<lparr>value = (case v of None \<Rightarrow> zero_rep T | Some x \<Rightarrow> x),
      valid = (case b of None \<Rightarrow> False | Some x \<Rightarrow> x)\<rparr>"

definition Nullable_zero :: "gotype \<Rightarrow> nullable" where
  "Nullable_zero T = Nullable_lit T None None"

definition FromValue :: "gotype \<Rightarrow> rep \<Rightarrow> nullable" where
  "FromValue T v = Nullable_lit T (Some v) (Some True)"

definition Null :: "gotype \<Rightarrow> nullable" where
  "Null T = Nullable_lit T None (Some False)"

text \<open>The argument of \<open>FromPointer\<close> is a \<open>*T\<close>: nil or the content it points to.\<close>

definition FromPointer :: "gotype \<Rightarrow> rep option \<Rightarrow> nullable" where
  "FromPointer T p =
     (case p of
        None \<Rightarrow> Nullable_lit T None (Some False)
      | Some x \<Rightarrow> Nullable_lit T (Some x) (Some True))"

subsection \<open>Methods with a value receiver\<close>

definition OrElse :: "nullable \<Rightarrow> rep \<Rightarrow> rep" where
  "OrElse n defaultVal = (if valid n then value n else defaultVal)"

definition GetValue :: "nullable \<Rightarrow> rep" where
  "GetValue n = value n"

definition IsNull :: "nullable \<Rightarrow> bool" where
  "IsNull n = (\<not> valid n)"

definition HasValue :: "nullable \<Rightarrow> bool" where
  "HasValue n = valid n"

definition Value :: "env \<Rightarrow> gotype \<Rightarrow> nullable \<Rightarrow> (any \<times> error option) option" where
  "Value env T n =
     (if \<not> valid n then Some (None, None)
      else case as_Valuer env (box T (value n)) of
             Some res \<Rightarrow> Some res
           | None \<Rightarrow> convertToDriverValue env (box T (value n)))"

definition MarshalJSON :: "env \<Rightarrow> gotype \<Rightarrow> nullable \<Rightarrow> string \<times> error option" where
  "MarshalJSON env T n =
     (if \<not> valid n then json_Marshal env None
      else json_Marshal env (box T (value n)))"

definition MarshalYAML :: "gotype \<Rightarrow> nullable \<Rightarrow> any \<times> error option" where
  "MarshalYAML T n = (if \<not> valid n then (None, None) else (box T (value n), None))"

subsection \<open>Methods with a pointer receiver\<close>

text \<open>Each returns the instance after the call together with the error.\<close>

definition Scan :: "env \<Rightarrow> gotype \<Rightarrow> nullable \<Rightarrow> any \<Rightarrow> nullable \<times> error option" where
  "Scan env T n v =
     (if v = None then (n\<lparr>value := zeroValue T, valid := False\<rparr>, None)
      else case Scanner env T of
        Some scan \<Rightarrow>
          (case scan (value n) v of
             (x, Some err) \<Rightarrow> (n\<lparr>value := x, valid := False\<rparr>, Some err)
           | (x, None) \<Rightarrow> (n\<lparr>value := x, valid := True\<rparr>, None))
      | None \<Rightarrow>
          (case convertToType T v of
             (x, Some err) \<Rightarrow> (n\<lparr>value := x, valid := False\<rparr>, Some err)
           | (x, None) \<Rightarrow> (n\<lparr>value := x, valid := True\<rparr>, None)))"

text \<open>\<open>json.Unmarshal(data, &value)\<close> starts from the local \<open>var value T\<close>.\<close>

definition UnmarshalJSON :: "env \<Rightarrow> gotype \<Rightarrow> nullable \<Rightarrow> string \<Rightarrow> nullable \<times> error option"
  where
  "UnmarshalJSON env T n data =
     (if data = ''null'' then (n\<lparr>valid := False, value := zeroValue T\<rparr>, None)
      else case json_Unmarshal env T data (zero_rep T) of
             (x, Some err) \<Rightarrow> (n\<lparr>valid := False\<rparr>, Some err)
           | (x, None) \<Rightarrow> (n\<lparr>value := x, valid := True\<rparr>, None))"

text \<open>
  The callback gets \<open>&value\<close> for the local \<open>var value *T\<close>, which is nil: it maps the
  pointer before the call (nil, or the content it points to) to the pointer after it.
\<close>

type_synonym yaml_callback = "rep option \<Rightarrow> rep option \<times> error option"

definition UnmarshalYAML :: "gotype \<Rightarrow> nullable \<Rightarrow> yaml_callback \<Rightarrow> nullable \<times> error option"
  where
  "UnmarshalYAML T n unmarshal =
     (case unmarshal None of
        (p, Some err) \<Rightarrow> (n\<lparr>valid := False\<rparr>, Some err)
      | (None, None) \<Rightarrow> (n\<lparr>valid := False, value := zeroValue T\<rparr>, None)
      | (Some x, None) \<Rightarrow> (n\<lparr>value := x, valid := True\<rparr>, None))"

subsection \<open>Calling a method on a variable\<close>

text \<open>
  A call of a method on a variable that holds \<open>n\<close> gives the result and what the variable
  holds after the call. A method declared on \<open>Nullable[T]\<close> runs on a copy of the
  variable; a method declared on \<open>*Nullable[T]\<close> writes through the pointer.
\<close>

datatype call =
    Call_OrElse rep
  | Call_GetValue
  | Call_IsNull
  | Call_HasValue
  | Call_Scan any
  | Call_Value
  | Call_UnmarshalJSON string
  | Call_MarshalJSON
  | Call_UnmarshalYAML yaml_callback
  | Call_MarshalYAML

datatype result =
    Ret_T rep
  | Ret_bool bool
  | Ret_error "error option"
  | Ret_driver "(any \<times> error option) option"
  | Ret_bytes "string \<times> error option"
  | Ret_any "any \<times> error option"

fun invoke :: "env \<Rightarrow> gotype \<Rightarrow> call \<Rightarrow> nullable \<Rightarrow> result \<times> nullable" where
  "invoke env T (Call_OrElse defaultVal) n = (Ret_T (OrElse n defaultVal), n)"
| "invoke env T Call_GetValue n = (Ret_T (GetValue n), n)"
| "invoke env T Call_IsNull n = (Ret_bool (IsNull n), n)"
| "invoke env T Call_HasValue n = (Ret_bool (HasValue n), n)"
| "invoke env T (Call_Scan v) n = (case Scan env T n v of (n', err) \<Rightarrow> (Ret_error err, n'))"
| "invoke env T Call_Value n = (Ret_driver (Value env T n), n)"
| "invoke env T (Call_UnmarshalJSON data) n =
     (case UnmarshalJSON env T n data of (n', err) \<Rightarrow> (Ret_error err, n'))"
| "invoke env T Call_MarshalJSON n = (Ret_bytes (MarshalJSON env T n), n)"
| "invoke env T (Call_UnmarshalYAML unmarshal) n =
     (case UnmarshalYAML T n unmarshal of (n', err) \<Rightarrow> (Ret_error err, n'))"
| "invoke env T Call_MarshalYAML n = (Ret_any (MarshalYAML T n), n)"

section \<open>A concrete environment\<close>

text \<open>
  The payload type of the package's tests, with its two methods:
  \<^verbatim>\<open>
  type TestStruct struct { Field string }
  func (t *TestStruct) Scan(value any) error {
      str, ok := value.(string)
      if !ok { return errors.New("failed to scan TestStruct") }
      t.Field = str
      return nil
  }
  func (t TestStruct) Value() (driver.Value, error) { return t.Field, nil }
  \<close>
\<close>

definition TestStruct :: gotype where
  "TestStruct = TNamed ''nullable.TestStruct'' (TStruct [(''Field'', TString)])"

definition TestStruct_Scan :: "rep \<Rightarrow> any \<Rightarrow> rep \<times> error option" where
  "TestStruct_Scan t v =
     (case v of
        Some (ty, RString str) \<Rightarrow>
          if ty = TString then (RStruct [RString str], None)
          else (t, Some (External ''failed to scan TestStruct''))
      | _ \<Rightarrow> (t, Some (External ''failed to scan TestStruct'')))"

definition TestStruct_Value :: "rep \<Rightarrow> any \<times> error option" where
  "TestStruct_Value t =
     (case t of RStruct [RString field] \<Rightarrow> (Some (TString, RString field), None)
      | _ \<Rightarrow> (None, None))"

text \<open>
  \<open>encoding/json\<close> on \<open>nil\<close>, \<open>bool\<close> and \<open>*bool\<close>: a nil pointer is encoded as \<open>null\<close>, and
  \<open>null\<close> decodes to a nil pointer and leaves a \<open>bool\<close> as it is.
\<close>

definition bool_Marshal :: "bool \<Rightarrow> string" where
  "bool_Marshal b = (if b then ''true'' else ''false'')"

definition test_Marshal :: "any \<Rightarrow> string \<times> error option" where
  "test_Marshal v =
     (case v of
        None \<Rightarrow> (''null'', None)
      | Some (t, RBool b) \<Rightarrow>
          if t = TBool then (bool_Marshal b, None)
          else ([], Some (External ''json: unsupported type''))
      | Some (t, RPointer None) \<Rightarrow>
          if t = TPointer TBool then (''null'', None)
          else ([], Some (External ''json: unsupported type''))
      | Some (t, RPointer (Some (RBool b))) \<Rightarrow>
          if t = TPointer TBool then (bool_Marshal b, None)
          else ([], Some (External ''json: unsupported type''))
      | _ \<Rightarrow> ([], Some (External ''json: unsupported type'')))"

definition test_Unmarshal :: "gotype \<Rightarrow> string \<Rightarrow> rep \<Rightarrow> rep \<times> error option" where
  "test_Unmarshal T data cur =
     (if T = TBool then
        (if data = ''true'' then (RBool True, None)
         else if data = ''false'' then (RBool False, None)
         else if data = ''null'' then (cur, None)
         else (cur, Some (External ''json: cannot unmarshal into Go value of type bool'')))
      else if T = TPointer TBool then
        (if data = ''true'' then (RPointer (Some (RBool True)), None)
         else if data = ''false'' then (RPointer (Some (RBool False)), None)
         else if data = ''null'' then (RPointer None, None)
         else (cur, Some (External ''json: cannot unmarshal into Go value of type bool'')))
      else (cur, Some (External ''json: unsupported type'')))"

definition test_env :: env where
  "test_env =
     \<lparr>Scanner = (\<lambda>t. if t = TestStruct then Some TestStruct_Scan else None),
      Valuer = (\<lambda>t. if t = TestStruct then Some TestStruct_Value else None),
      json_Marshal = test_Marshal,
      json_Unmarshal = test_Unmarshal\<rparr>"

text \<open>A YAML callback that fails without touching its target.\<close>

definition failing_callback :: yaml_callback where
  "failing_callback p = (p, Some (External ''yaml: unmarshal errors''))"

section \<open>The codec contract of the specification\<close>

text \<open>
  A payload type round-trips under the structural codec when every well-typed content
  is encoded without error to bytes that decode, into a fresh variable, to that content.
\<close>

definition round_trips_under_codec :: "env \<Rightarrow> nat \<Rightarrow> gotype \<Rightarrow> bool" where
  "round_trips_under_codec env intSize T =
     (\<forall>v. has_type intSize T v \<longrightarrow>
        snd (json_Marshal env (box T v)) = None
        \<and> json_Unmarshal env T (fst (json_Marshal env (box T v))) (zero_rep T) = (v, None))"

section \<open>Facts about the helpers\<close>

text \<open>
  \<open>reflect.TypeOf\<close> of the zero value of \<open>T\<close>, boxed: the type itself, except that a nil
  interface has no type.
\<close>

lemma reflect_TypeOf_box_zero:
  "reflect_TypeOf (box T (zero_rep T)) = (if is_interface T then None else Some T)"
  by (induction T) (auto simp: box_def is_interface_def reflect_TypeOf_def)

lemma convertToType_Some:
  "convertToType T (Some (t, r)) =
     (if \<not> is_interface T \<and> t = T then (r, None)
      else (zero_rep T, Some ErrUnsupportedConversion))"
  by (auto simp: convertToType_def Let_def reflect_TypeOf_box_zero)
     (simp_all add: reflect_TypeOf_def)

lemma convertToType_error:
  "snd (convertToType T v) \<noteq> None \<Longrightarrow> fst (convertToType T v) = zero_rep T"
  by (cases v) (auto simp: convertToType_def Let_def split: if_splits)

lemma UnmarshalJSON_null:
  "UnmarshalJSON env T m ''null'' = (\<lparr>value = zeroValue T, valid = False\<rparr>, None)"
  by (simp add: UnmarshalJSON_def)

text \<open>Every branch of \<open>Value\<close> on an unsigned payload whose type has no \<open>Value\<close> method.\<close>

lemma Value_unsigned:
  assumes "valid n" and "value n = RUint u" and "\<not> is_interface T" and "Valuer env T = None"
  shows "kind_of T \<in> set [KUint, KUint8, KUint16, KUint32] \<Longrightarrow>
           Value env T n = Some (Some (TInt64, RInt u), None)"
    and "kind_of T = KUint64 \<Longrightarrow> u < push_bit 63 1 \<Longrightarrow>
           Value env T n = Some (Some (TInt64, RInt u), None)"
    and "kind_of T = KUint64 \<Longrightarrow> push_bit 63 1 \<le> u \<Longrightarrow>
           Value env T n =
             Some (None, Some (Errorf ''uint64 values with high bit set are not supported'' []))"
    and "kind_of T = KUintptr \<Longrightarrow>
           Value env T n =
             Some (None, Some (Errorf ''unsupported type: %T'' [Arg_value (Some (T, RUint u))]))"
  using assms
  by (auto simp: Value_def box_def as_Valuer_def convertToDriverValue.simps
        reflect_Kind_def reflect_Uint_def)

subsection \<open>The test codec round-trips \<open>bool\<close> and \<open>*bool\<close>\<close>

lemma has_type_TBool: "has_type k TBool v \<longleftrightarrow> (\<exists>b. v = RBool b)"
  by (cases v) auto

lemma has_type_ptr_TBool:
  "has_type k (TPointer TBool) v \<longleftrightarrow>
     v = RPointer None \<or> (\<exists>b. v = RPointer (Some (RBool b)))"
  by (cases v) (auto split: option.splits rep.splits)

lemma test_env_round_trips_bool: "round_trips_under_codec test_env k TBool"
  unfolding round_trips_under_codec_def
proof (intro allI impI)
  fix v
  assume "has_type k TBool v"
  then obtain b where "v = RBool b"
    unfolding has_type_TBool by blast
  then show "snd (json_Marshal test_env (box TBool v)) = None
      \<and> json_Unmarshal test_env TBool (fst (json_Marshal test_env (box TBool v))) (zero_rep TBool)
          = (v, None)"
    by (simp add: test_env_def box_def is_interface_def test_Marshal_def test_Unmarshal_def
          bool_Marshal_def)
qed

lemma test_env_round_trips_ptr_bool: "round_trips_under_codec test_env k (TPointer TBool)"
  unfolding round_trips_under_codec_def
proof (intro allI impI)
  fix v
  assume "has_type k (TPointer TBool) v"
  then consider "v = RPointer None" | b where "v = RPointer (Some (RBool b))"
    unfolding has_type_ptr_TBool by blast
  then show "snd (json_Marshal test_env (box (TPointer TBool) v)) = None
      \<and> json_Unmarshal test_env (TPointer TBool)
           (fst (json_Marshal test_env (box (TPointer TBool) v))) (zero_rep (TPointer TBool))
          = (v, None)"
    by cases
       (simp_all add: test_env_def box_def is_interface_def test_Marshal_def test_Unmarshal_def
          bool_Marshal_def)
qed

section \<open>The claims\<close>

text \<open>
  C5. For every type \<open>T\<close>, whether or not \<open>*T\<close> implements \<open>sql.Scanner\<close>, \<open>Scan(nil)\<close>
  returns no error and leaves the instance absent with the zero value of \<open>T\<close> as its
  payload, whatever it held before.
\<close>

theorem Scan_nil:
  "Scan env T n None = (\<lparr>value = zero_rep T, valid = False\<rparr>, None)
   \<and> IsNull (fst (Scan env T n None))
   \<and> GetValue (fst (Scan env T n None)) = zero_rep T"
  by (simp add: Scan_def zeroValue_def IsNull_def GetValue_def)

text \<open>
  C6. For every type \<open>T\<close>, with or without a \<open>Value\<close> method, \<open>Value()\<close> on an absent instance
  returns \<open>(nil, nil)\<close>.
\<close>

theorem Value_absent: "\<not> valid n \<Longrightarrow> Value env T n = Some (None, None)"
  by (simp add: Value_def)

text \<open>At the absent instance of \<open>TestStruct\<close>, a type that implements \<open>driver.Valuer\<close>.\<close>

theorem Value_absent_witness:
  "\<not> valid (Null TestStruct) \<and> Valuer test_env TestStruct \<noteq> None
   \<and> Value test_env TestStruct (Null TestStruct) = Some (None, None)"
  using Value_absent [of "Null TestStruct" test_env TestStruct]
  by (simp add: Null_def Nullable_lit_def test_env_def)

text \<open>
  C7. \<open>OrElse(d)\<close> returns the payload of a present instance and ignores \<open>d\<close>; on an absent
  instance it returns exactly \<open>d\<close>; the variable it is called on holds the same instance
  after the call.
\<close>

theorem OrElse_present_absent:
  "(valid n \<longrightarrow> OrElse n d = value n) \<and> (\<not> valid n \<longrightarrow> OrElse n d = d)
   \<and> snd (invoke env T (Call_OrElse d) n) = n"
  by (simp add: OrElse_def)

theorem OrElse_present_absent_witness:
  "valid (FromValue TString (RString ''hello''))
   \<and> OrElse (FromValue TString (RString ''hello'')) (RString ''default'') = RString ''hello''
   \<and> \<not> valid (Null TString)
   \<and> OrElse (Null TString) (RString ''default'') = RString ''default''"
  using OrElse_present_absent [of "FromValue TString (RString ''hello'')" "RString ''default''"]
        OrElse_present_absent [of "Null TString" "RString ''default''"]
  by (simp add: FromValue_def Null_def Nullable_lit_def)

text \<open>
  C3. Let \<open>*T\<close> implement no \<open>sql.Scanner\<close> and let the driver value be non-nil with
  dynamic type \<open>t\<close> (the dynamic type of an interface value is never an interface type).
  If \<open>t\<close> is exactly \<open>T\<close>, \<open>Scan\<close> returns no error and leaves the instance present with
  the driver value as its payload. If \<open>t\<close> differs from \<open>T\<close>, \<open>Scan\<close> returns
  \<open>ErrUnsupportedConversion\<close> and leaves the instance absent.
\<close>

theorem Scan_strict_same_type:
  assumes "Scanner env T = None" and "\<not> is_interface t"
  shows "(t = T \<longrightarrow>
            Scan env T n (Some (t, r)) = (\<lparr>value = r, valid = True\<rparr>, None)
            \<and> box T (GetValue (fst (Scan env T n (Some (t, r))))) = Some (t, r))
       \<and> (t \<noteq> T \<longrightarrow>
            Scan env T n (Some (t, r)) =
              (\<lparr>value = zeroValue T, valid = False\<rparr>, Some ErrUnsupportedConversion))"
  using assms by (auto simp: Scan_def convertToType_Some zeroValue_def box_def GetValue_def)

text \<open>
  The two examples of the tests: \<open>Scan("hi")\<close> into a \<open>Nullable[string]\<close>, and \<open>Scan(3.14)\<close>
  into a \<open>Nullable[int]\<close>.
\<close>

theorem Scan_strict_same_type_witness:
  "Scanner test_env TString = None \<and> \<not> is_interface TString
   \<and> Scan test_env TString (Nullable_zero TString) (Some (TString, RString ''hi''))
       = (\<lparr>value = RString ''hi'', valid = True\<rparr>, None)
   \<and> Scanner test_env TInt = None \<and> \<not> is_interface TFloat64 \<and> TFloat64 \<noteq> TInt
   \<and> Scan test_env TInt (Nullable_zero TInt) (Some (TFloat64, RFloat (314 / 100)))
       = (\<lparr>value = RInt 0, valid = False\<rparr>, Some ErrUnsupportedConversion)"
  using Scan_strict_same_type [of test_env TString TString "Nullable_zero TString" "RString ''hi''"]
        Scan_strict_same_type [of test_env TInt TFloat64 "Nullable_zero TInt" "RFloat (314 / 100)"]
  by (simp add: test_env_def TestStruct_def is_interface_def zeroValue_def)

text \<open>
  C8. When \<open>T\<close> is an interface type and \<open>*T\<close> implements no \<open>sql.Scanner\<close>, \<open>Scan\<close> fails
  with \<open>ErrUnsupportedConversion\<close> on every non-nil driver value: the zero value of \<open>T\<close>
  is a nil interface, of which \<open>reflect.TypeOf\<close> is nil, and the type of a non-nil value
  is not.
\<close>

theorem Scan_interface_payload_rejects:
  assumes "is_interface T" and "Scanner env T = None" and "v \<noteq> None"
  shows "Scan env T n v =
           (\<lparr>value = zeroValue T, valid = False\<rparr>, Some ErrUnsupportedConversion)"
  using assms by (cases v) (auto simp: Scan_def convertToType_Some zeroValue_def)

text \<open>A \<open>Nullable[any]\<close> that holds the int 7, scanned from the string \<open>"hi"\<close>.\<close>

theorem Scan_interface_payload_rejects_witness:
  "is_interface (TInterface []) \<and> Scanner test_env (TInterface []) = None
   \<and> Some (TString, RString ''hi'') \<noteq> None
   \<and> Scan test_env (TInterface []) (FromValue (TInterface []) (RIface (Some (TInt, RInt 7))))
        (Some (TString, RString ''hi''))
       = (\<lparr>value = RIface None, valid = False\<rparr>, Some ErrUnsupportedConversion)"
  using Scan_interface_payload_rejects [of "TInterface []" test_env "Some (TString, RString ''hi'')"
          "FromValue (TInterface []) (RIface (Some (TInt, RInt 7)))"]
  by (simp add: test_env_def TestStruct_def is_interface_def zeroValue_def)

text \<open>
  C9. The zero value of the struct \<open>Nullable[T]\<close> is the instance that \<open>Null[T]()\<close> builds:
  \<open>valid\<close> is false and \<open>value\<close> is the zero value of \<open>T\<close>, so every method call gives the
  same result and the same instance afterwards on both.
\<close>

theorem Nullable_zero_is_Null:
  "Nullable_zero T = Null T
   \<and> valid (Nullable_zero T) = False
   \<and> value (Nullable_zero T) = zeroValue T
   \<and> IsNull (Nullable_zero T)
   \<and> (\<forall>env c. invoke env T c (Nullable_zero T) = invoke env T c (Null T))"
  by (simp add: Nullable_zero_def Null_def Nullable_lit_def zeroValue_def IsNull_def)

text \<open>
  C10. A call of \<open>OrElse\<close>, \<open>GetValue\<close>, \<open>IsNull\<close>, \<open>HasValue\<close>, \<open>MarshalJSON\<close>,
  \<open>MarshalYAML\<close> or \<open>Value\<close> leaves the instance it is called on as it was; a call after
  which the instance differs is a call of \<open>Scan\<close>, \<open>UnmarshalJSON\<close> or \<open>UnmarshalYAML\<close>.
\<close>

theorem read_methods_leave_instance:
  "(c \<in> {Call_OrElse d, Call_GetValue, Call_IsNull, Call_HasValue, Call_MarshalJSON,
          Call_MarshalYAML, Call_Value} \<longrightarrow> snd (invoke env T c n) = n)
   \<and> (snd (invoke env T c n) \<noteq> n \<longrightarrow>
        (\<exists>v. c = Call_Scan v) \<or> (\<exists>data. c = Call_UnmarshalJSON data)
        \<or> (\<exists>unmarshal. c = Call_UnmarshalYAML unmarshal))"
  by (cases c) auto

text \<open>\<open>Value()\<close> on a present string leaves it; \<open>Scan(nil)\<close> on it does not.\<close>

theorem read_methods_leave_instance_witness:
  "snd (invoke test_env TString Call_Value (FromValue TString (RString ''a'')))
     = FromValue TString (RString ''a'')
   \<and> snd (invoke test_env TString (Call_Scan None) (FromValue TString (RString ''a'')))
       \<noteq> FromValue TString (RString ''a'')"
  using read_methods_leave_instance
          [of Call_Value "RString []" test_env TString "FromValue TString (RString ''a'')"]
        read_methods_leave_instance
          [of "Call_Scan None" "RString []" test_env TString "FromValue TString (RString ''a'')"]
  by (simp add: Scan_def FromValue_def Nullable_lit_def zeroValue_def)

text \<open>
  C1, as the code has it. After a failing \<open>UnmarshalJSON\<close>, \<open>UnmarshalYAML\<close> or \<open>Scan\<close> the
  instance is absent, so \<open>OrElse\<close> returns the default it is given. The payload is
  \<open>zeroValue[T]()\<close> after a failed strict coercion in \<open>Scan\<close> (no \<open>Scanner\<close> on \<open>*T\<close>). After
  a failed JSON decode or a failed YAML callback the payload is the one the instance held
  before the call, and after a failed \<open>Scan\<close> method of the payload type it is what that
  method left in it; \<open>GetValue\<close> returns that payload.
\<close>

theorem failed_mutation_state:
  "(snd (UnmarshalJSON env T n data) \<noteq> None \<longrightarrow>
      fst (UnmarshalJSON env T n data) = n\<lparr>valid := False\<rparr>
      \<and> OrElse (fst (UnmarshalJSON env T n data)) d = d)
   \<and> (snd (UnmarshalYAML T n unmarshal) \<noteq> None \<longrightarrow>
      fst (UnmarshalYAML T n unmarshal) = n\<lparr>valid := False\<rparr>
      \<and> OrElse (fst (UnmarshalYAML T n unmarshal)) d = d)
   \<and> (Scanner env T = None \<longrightarrow> snd (Scan env T n v) \<noteq> None \<longrightarrow>
      fst (Scan env T n v) = \<lparr>value = zeroValue T, valid = False\<rparr>
      \<and> OrElse (fst (Scan env T n v)) d = d)
   \<and> (Scanner env S = Some scan \<longrightarrow> snd (Scan env S m w) \<noteq> None \<longrightarrow>
      fst (Scan env S m w) = \<lparr>value = fst (scan (value m) w), valid = False\<rparr>
      \<and> OrElse (fst (Scan env S m w)) d = d)"
proof (intro conjI impI)
  assume "snd (UnmarshalJSON env T n data) \<noteq> None"
  then show "fst (UnmarshalJSON env T n data) = n\<lparr>valid := False\<rparr>"
    by (auto simp: UnmarshalJSON_def split: if_splits prod.splits option.splits)
  then show "OrElse (fst (UnmarshalJSON env T n data)) d = d"
    by (simp add: OrElse_def)
next
  assume "snd (UnmarshalYAML T n unmarshal) \<noteq> None"
  then show "fst (UnmarshalYAML T n unmarshal) = n\<lparr>valid := False\<rparr>"
    by (auto simp: UnmarshalYAML_def split: prod.splits option.splits)
  then show "OrElse (fst (UnmarshalYAML T n unmarshal)) d = d"
    by (simp add: OrElse_def)
next
  assume "Scanner env T = None" and "snd (Scan env T n v) \<noteq> None"
  then show "fst (Scan env T n v) = \<lparr>value = zeroValue T, valid = False\<rparr>"
    using convertToType_error [of T v]
    by (auto simp: Scan_def zeroValue_def split: if_splits prod.splits option.splits)
  then show "OrElse (fst (Scan env T n v)) d = d"
    by (simp add: OrElse_def)
next
  assume "Scanner env S = Some scan" and "snd (Scan env S m w) \<noteq> None"
  then show "fst (Scan env S m w) = \<lparr>value = fst (scan (value m) w), valid = False\<rparr>"
    by (auto simp: Scan_def split: if_splits prod.splits option.splits)
  then show "OrElse (fst (Scan env S m w)) d = d"
    by (simp add: OrElse_def)
qed

text \<open>
  The four failures on instances that hold a value: the bytes \<open>123\<close> decoded into a
  \<open>Nullable[bool]\<close>, a failing YAML callback, a string scanned into a \<open>Nullable[bool]\<close>,
  and a bool scanned into a \<open>Nullable[TestStruct]\<close>.
\<close>

theorem failed_mutation_state_witness:
  "snd (UnmarshalJSON test_env TBool (FromValue TBool (RBool True)) ''123'') \<noteq> None
   \<and> fst (UnmarshalJSON test_env TBool (FromValue TBool (RBool True)) ''123'')
       = \<lparr>value = RBool True, valid = False\<rparr>
   \<and> snd (UnmarshalYAML TBool (FromValue TBool (RBool True)) failing_callback) \<noteq> None
   \<and> fst (UnmarshalYAML TBool (FromValue TBool (RBool True)) failing_callback)
       = \<lparr>value = RBool True, valid = False\<rparr>
   \<and> Scanner test_env TBool = None
   \<and> snd (Scan test_env TBool (FromValue TBool (RBool True)) (Some (TString, RString ''yes'')))
       \<noteq> None
   \<and> fst (Scan test_env TBool (FromValue TBool (RBool True)) (Some (TString, RString ''yes'')))
       = \<lparr>value = RBool False, valid = False\<rparr>
   \<and> Scanner test_env TestStruct = Some TestStruct_Scan
   \<and> snd (Scan test_env TestStruct (FromValue TestStruct (RStruct [RString ''old'']))
            (Some (TBool, RBool True))) \<noteq> None
   \<and> fst (Scan test_env TestStruct (FromValue TestStruct (RStruct [RString ''old'']))
            (Some (TBool, RBool True)))
       = \<lparr>value = RStruct [RString ''old''], valid = False\<rparr>"
  using failed_mutation_state
          [of test_env TBool "FromValue TBool (RBool True)" "''123''" "RBool False"
              failing_callback "Some (TString, RString ''yes'')" TestStruct TestStruct_Scan
              "FromValue TestStruct (RStruct [RString ''old''])" "Some (TBool, RBool True)"]
  by (simp add: UnmarshalJSON_def UnmarshalYAML_def Scan_def test_env_def test_Unmarshal_def
        FromValue_def Nullable_lit_def zeroValue_def failing_callback_def TestStruct_def
        TestStruct_Scan_def convertToType_Some is_interface_def)

text \<open>
  C1 as stated fails: a \<open>Nullable[bool]\<close> that holds \<open>true\<close> and then fails to decode the
  bytes \<open>123\<close> still returns \<open>true\<close> from \<open>GetValue\<close>, which is not the zero value of \<open>bool\<close>.
\<close>

theorem failed_decode_keeps_payload:
  "snd (UnmarshalJSON test_env TBool (FromValue TBool (RBool True)) ''123'') \<noteq> None
   \<and> GetValue (fst (UnmarshalJSON test_env TBool (FromValue TBool (RBool True)) ''123''))
       = RBool True
   \<and> GetValue (fst (UnmarshalJSON test_env TBool (FromValue TBool (RBool True)) ''123''))
       \<noteq> zeroValue TBool"
  by (simp add: UnmarshalJSON_def test_env_def test_Unmarshal_def FromValue_def Nullable_lit_def
        GetValue_def zeroValue_def)

text \<open>
  C2. On a platform where \<open>uint\<close> has 64 bits, \<open>Value()\<close> on a present \<open>Nullable[uint]\<close> that
  holds \<open>2^63\<close> returns the \<open>int64\<close> with the same bits, which is \<open>-2^63\<close>, and no error;
  the same number in a \<open>Nullable[uint64]\<close> is refused with an error.
\<close>

theorem Value_uint_high_bit:
  "has_type 64 TUint (RUint (push_bit 63 1))
   \<and> Valuer test_env TUint = None
   \<and> Value test_env TUint (FromValue TUint (RUint (push_bit 63 1)))
       = Some (Some (TInt64, RInt (push_bit 63 1)), None)
   \<and> sint (push_bit 63 1 :: 64 word) = - (2 ^ 63)
   \<and> Value test_env TUint64 (FromValue TUint64 (RUint (push_bit 63 1)))
       = Some (None, Some (Errorf ''uint64 values with high bit set are not supported'' []))"
proof (intro conjI)
  show "has_type 64 TUint (RUint (push_bit 63 1))"
    by (simp add: unsigned_kinds_def)
  show "Valuer test_env TUint = None"
    by (simp add: test_env_def TestStruct_def)
  show "Value test_env TUint (FromValue TUint (RUint (push_bit 63 1)))
          = Some (Some (TInt64, RInt (push_bit 63 1)), None)"
    by (simp add: Value_def FromValue_def Nullable_lit_def box_def is_interface_def
          as_Valuer_def test_env_def TestStruct_def convertToDriverValue.simps
          reflect_Kind_def reflect_Uint_def)
  show "sint (push_bit 63 1 :: 64 word) = - (2 ^ 63)"
    by simp
  show "Value test_env TUint64 (FromValue TUint64 (RUint (push_bit 63 1)))
          = Some (None, Some (Errorf ''uint64 values with high bit set are not supported'' []))"
    by (simp add: Value_def FromValue_def Nullable_lit_def box_def is_interface_def
          as_Valuer_def test_env_def TestStruct_def convertToDriverValue.simps
          reflect_Kind_def reflect_Uint_def)
qed

text \<open>
  C4, as the code has it. Let \<open>json.Marshal(nil)\<close> be \<open>null\<close> and let \<open>T\<close> round-trip under
  the codec. An absent instance is encoded as \<open>null\<close>, which decodes, into any instance,
  to the absent instance with the zero payload. A present instance whose encoding is not
  the bytes \<open>null\<close> decodes back to itself.
\<close>

theorem json_round_trip:
  assumes "json_Marshal env None = (''null'', None)"
    and "round_trips_under_codec env intSize T"
    and "has_type intSize T (value x)"
  shows "(\<not> valid x \<longrightarrow>
            MarshalJSON env T x = (''null'', None)
            \<and> UnmarshalJSON env T m (fst (MarshalJSON env T x)) = (Null T, None))
       \<and> (valid x \<longrightarrow> fst (MarshalJSON env T x) \<noteq> ''null'' \<longrightarrow>
            snd (MarshalJSON env T x) = None
            \<and> UnmarshalJSON env T m (fst (MarshalJSON env T x)) = (x, None))"
proof (intro conjI impI)
  assume "\<not> valid x"
  then show "MarshalJSON env T x = (''null'', None)"
    using assms(1) by (simp add: MarshalJSON_def)
  then show "UnmarshalJSON env T m (fst (MarshalJSON env T x)) = (Null T, None)"
    by (simp add: UnmarshalJSON_null Null_def Nullable_lit_def zeroValue_def)
next
  assume v: "valid x" and nn: "fst (MarshalJSON env T x) \<noteq> ''null''"
  from assms(2,3) have enc: "snd (json_Marshal env (box T (value x))) = None"
    and dec: "json_Unmarshal env T (fst (json_Marshal env (box T (value x)))) (zero_rep T)
                = (value x, None)"
    by (simp_all add: round_trips_under_codec_def)
  from v enc show "snd (MarshalJSON env T x) = None"
    by (simp add: MarshalJSON_def)
  from v nn dec show "UnmarshalJSON env T m (fst (MarshalJSON env T x)) = (x, None)"
    by (simp add: MarshalJSON_def UnmarshalJSON_def)
qed

text \<open>The absent and the present \<open>Nullable[bool]\<close>, each decoded into the other.\<close>

theorem json_round_trip_witness:
  "json_Marshal test_env None = (''null'', None)
   \<and> round_trips_under_codec test_env 64 TBool
   \<and> has_type 64 TBool (value (Null TBool))
   \<and> \<not> valid (Null TBool)
   \<and> UnmarshalJSON test_env TBool (FromValue TBool (RBool True))
        (fst (MarshalJSON test_env TBool (Null TBool))) = (Null TBool, None)
   \<and> has_type 64 TBool (value (FromValue TBool (RBool True)))
   \<and> valid (FromValue TBool (RBool True))
   \<and> fst (MarshalJSON test_env TBool (FromValue TBool (RBool True))) \<noteq> ''null''
   \<and> UnmarshalJSON test_env TBool (Null TBool)
        (fst (MarshalJSON test_env TBool (FromValue TBool (RBool True))))
       = (FromValue TBool (RBool True), None)"
  using json_round_trip [of test_env 64 TBool "Null TBool" "FromValue TBool (RBool True)"]
        json_round_trip [of test_env 64 TBool "FromValue TBool (RBool True)" "Null TBool"]
        test_env_round_trips_bool [of 64]
  by (simp add: Null_def FromValue_def Nullable_lit_def MarshalJSON_def box_def is_interface_def
        test_env_def test_Marshal_def bool_Marshal_def)

text \<open>
  C4 as stated fails: \<open>*bool\<close> round-trips under the codec, but the present
  \<open>Nullable[*bool]\<close> that holds the nil pointer is encoded as \<open>null\<close> and decodes to an
  absent instance.
\<close>

theorem json_round_trip_nil_pointer:
  "json_Marshal test_env None = (''null'', None)
   \<and> round_trips_under_codec test_env 64 (TPointer TBool)
   \<and> has_type 64 (TPointer TBool) (value (FromValue (TPointer TBool) (RPointer None)))
   \<and> valid (FromValue (TPointer TBool) (RPointer None))
   \<and> MarshalJSON test_env (TPointer TBool) (FromValue (TPointer TBool) (RPointer None))
       = (''null'', None)
   \<and> fst (UnmarshalJSON test_env (TPointer TBool) (Nullable_zero (TPointer TBool))
            (fst (MarshalJSON test_env (TPointer TBool)
                    (FromValue (TPointer TBool) (RPointer None)))))
       \<noteq> FromValue (TPointer TBool) (RPointer None)"
  using test_env_round_trips_ptr_bool [of 64]
  by (simp add: FromValue_def Nullable_zero_def Nullable_lit_def MarshalJSON_def
        UnmarshalJSON_def box_def is_interface_def test_env_def test_Marshal_def zeroValue_def)

end
